theory Spec2Isabelle
  imports Main
begin

section \<open>Data model (types.ts)\<close>

datatype SlideLayout = Title | SplitLeft | SplitRight | Center | ImageHeavy | Data | Conclusion

datatype MediaType = None_m | Image | Video

text \<open>
  The interface \<^verbatim>\<open>Slide\<close>. Optional members (\<^verbatim>\<open>subtitle?\<close>, \<^verbatim>\<open>mediaUrl?\<close>,
  \<^verbatim>\<open>isLoadingMedia?\<close>, \<^verbatim>\<open>notes?\<close>) are options: \<open>None\<close> stands for a member that is
  absent or \<^verbatim>\<open>undefined\<close> (\<^verbatim>\<open>JSON.stringify\<close> drops both alike). The member \<^verbatim>\<open>id\<close> is
  called \<open>sid\<close> and the member \<^verbatim>\<open>notes\<close> is called \<open>notes_s\<close>, both names being taken
  in Isabelle.
\<close>

record Slide =
  sid :: string
  layout :: SlideLayout
  title :: string
  subtitle :: "string option"
  content :: "string list"
  imagePrompt :: string
  mediaType :: MediaType
  mediaUrl :: "string option"
  isLoadingMedia :: "bool option"
  notes_s :: "string option"

text \<open>An element of the \<^verbatim>\<open>history\<close> array: \<^verbatim>\<open>{slides: Slide[], title: string}\<close>.\<close>

record Entry =
  e_slides :: "Slide list"
  e_title :: string

datatype error = MissingApiKey | TypeError | ServiceError string

text \<open>
  The state of the component \<^verbatim>\<open>App\<close>: its \<^verbatim>\<open>useState\<close> cells that the history
  manager, the media workflow and the editing operations read or write, and \<open>alerts\<close>,
  the messages handed to \<^verbatim>\<open>alert\<close> so far (the user-visible notices).
\<close>

record App =
  slides :: "Slide list"
  currentSlideIndex :: int
  presentationTitle :: string
  history :: "Entry list"
  historyIndex :: int
  isRestoringHistory :: bool
  alerts :: "string list"

section \<open>JavaScript array primitives\<close>

text \<open>\<^verbatim>\<open>xs.slice(0, e)\<close>: a negative end counts from the back, and the end is clamped.\<close>

definition slice0 :: "int \<Rightarrow> 'a list \<Rightarrow> 'a list" where
  "slice0 e xs =
     (let n = int (length xs);
          k = (if e < 0 then max (n + e) 0 else min e n)
      in take (nat k) xs)"

text \<open>\<^verbatim>\<open>xs[i]\<close>: \<^verbatim>\<open>undefined\<close> (here \<open>None\<close>) outside of the array.\<close>

definition nth_js :: "'a list \<Rightarrow> int \<Rightarrow> 'a option" where
  "nth_js xs i = (if 0 \<le> i \<and> i < int (length xs) then Some (xs ! nat i) else None)"

section \<open>History logic (App component)\<close>

text \<open>
  \<^verbatim>\<open>pushToHistory\<close> queues two functional updates. Each updater receives the live value
  of its own cell (\<^verbatim>\<open>prev\<close>), while \<^verbatim>\<open>historyIndex\<close> in the first and \<^verbatim>\<open>history.length\<close>
  in the second are the variables of the render that created the callback
  (\<^verbatim>\<open>useCallback(..., [history, historyIndex])\<close>). The first argument \<open>c\<close> is that
  render's state, the last argument \<open>s\<close> is the live state the updaters are applied to.
  In a handler that pushes once, right after a render, both are the same state.
\<close>

definition pushToHistory :: "App \<Rightarrow> Slide list \<Rightarrow> string \<Rightarrow> App \<Rightarrow> App" where
  "pushToHistory c newSlides newTitle s =
     s\<lparr>history :=
         (let newHistory = slice0 (historyIndex c + 1) (history s)
                             @ [\<lparr>e_slides = newSlides, e_title = newTitle\<rparr>]
          in if length newHistory > 30 then tl newHistory else newHistory),
       historyIndex :=
         (let nextIndex = historyIndex s + 1
          in if length (history c) > 30 then 29 else nextIndex)\<rparr>"

text \<open>A push issued by a handler of the current render.\<close>

definition push :: "Slide list \<Rightarrow> string \<Rightarrow> App \<Rightarrow> App" where
  "push newSlides newTitle s = pushToHistory s newSlides newTitle s"

text \<open>
  \<^verbatim>\<open>undo\<close> and \<^verbatim>\<open>redo\<close> read \<^verbatim>\<open>history[historyIndex \<plusminus> 1]\<close> and then its members;
  on \<^verbatim>\<open>undefined\<close> the member access throws a TypeError. The reset of
  \<^verbatim>\<open>isRestoringHistory\<close> is deferred by \<^verbatim>\<open>setTimeout\<close>: it is the separate step
  \<open>restoreDone\<close>.
\<close>

definition undo :: "App \<Rightarrow> error + App" where
  "undo s =
     (if historyIndex s > 0 then
        (case nth_js (history s) (historyIndex s - 1) of
           None \<Rightarrow> Inl TypeError
         | Some prevState \<Rightarrow>
             Inr (s\<lparr>isRestoringHistory := True,
                    slides := e_slides prevState,
                    presentationTitle := e_title prevState,
                    historyIndex := historyIndex s - 1\<rparr>))
      else Inr s)"

definition redo :: "App \<Rightarrow> error + App" where
  "redo s =
     (if historyIndex s < int (length (history s)) - 1 then
        (case nth_js (history s) (historyIndex s + 1) of
           None \<Rightarrow> Inl TypeError
         | Some nextState \<Rightarrow>
             Inr (s\<lparr>isRestoringHistory := True,
                    slides := e_slides nextState,
                    presentationTitle := e_title nextState,
                    historyIndex := historyIndex s + 1\<rparr>))
      else Inr s)"

definition restoreDone :: "App \<Rightarrow> App" where
  "restoreDone s = s\<lparr>isRestoringHistory := False\<rparr>"

text \<open>
  \<^verbatim>\<open>saveSnapshot\<close>. The test \<^verbatim>\<open>JSON.stringify(lastState.slides) === JSON.stringify(slides)\<close>
  is equality of the two slide lists as values (members in the same order in both
  serialisations); the title is not part of the test.
\<close>

definition saveSnapshot :: "App \<Rightarrow> App" where
  "saveSnapshot s =
     (if isRestoringHistory s then s
      else case nth_js (history s) (historyIndex s) of
             Some lastState \<Rightarrow>
               if e_slides lastState = slides s then s
               else push (slides s) (presentationTitle s) s
           | None \<Rightarrow> push (slides s) (presentationTitle s) s)"

text \<open>The state of a fresh component, and a log of \<open>n\<close> snapshots told apart by title.\<close>

definition initialApp :: App where
  "initialApp = \<lparr>slides = [], currentSlideIndex = 0, presentationTitle = [],
                  history = [], historyIndex = -1, isRestoringHistory = False,
                  alerts = []\<rparr>"

definition snap :: "nat \<Rightarrow> Entry" where
  "snap n = \<lparr>e_slides = [], e_title = replicate n (CHR ''x'')\<rparr>"

fun pushes :: "nat \<Rightarrow> nat \<Rightarrow> App \<Rightarrow> App" where
  "pushes k 0 s = s"
| "pushes k (Suc n) s = pushes (Suc k) n (push [] (replicate k (CHR ''x'')) s)"

section \<open>Editing operations (App component)\<close>

text \<open>\<^verbatim>\<open>slides.filter((_, i) => i !== index)\<close>.\<close>

definition removeAt :: "int \<Rightarrow> 'a list \<Rightarrow> 'a list" where
  "removeAt index xs = map snd (filter (\<lambda>(i, x). int i \<noteq> index) (enumerate 0 xs))"

text \<open>
  \<^verbatim>\<open>deleteSlide(index)\<close>, run by a handler of the render with state \<open>c\<close>. Both calls of
  \<^verbatim>\<open>pushToHistory\<close> belong to that render; the second updater is applied to the result
  of the first.
\<close>

definition deleteSlide :: "int \<Rightarrow> App \<Rightarrow> App" where
  "deleteSlide index c =
     (if length (slides c) \<le> 1 then
        c\<lparr>alerts := alerts c @ [''Presentation must have at least one slide.'']\<rparr>
      else
        let s1 = pushToHistory c (slides c) (presentationTitle c) c;
            newSlides = removeAt index (slides c);
            s2 = s1\<lparr>slides := newSlides\<rparr>;
            s3 = (if currentSlideIndex c \<ge> index \<and> currentSlideIndex c > 0
                  then s2\<lparr>currentSlideIndex := currentSlideIndex c - 1\<rparr> else s2)
        in pushToHistory c newSlides (presentationTitle c) s3)"

section \<open>Generation client (services/gemini)\<close>

text \<open>The result of awaiting a promise: the value it resolves to, or the error it rejects with.\<close>

datatype 'a outcome = Returned 'a | Raised error

text \<open>
  What the client reads of a video operation (\<^verbatim>\<open>operation.done\<close> and
  \<^verbatim>\<open>operation.response?.generatedVideos?.[0]?.video?.uri\<close>) and of a fetch response
  (\<^verbatim>\<open>res.ok\<close>, \<^verbatim>\<open>res.status\<close>, \<^verbatim>\<open>res.statusText\<close>, and the object URL made of
  \<^verbatim>\<open>await res.blob()\<close>, which may reject).
\<close>

record Operation =
  op_done :: bool
  videoUri :: "string option"

record Response =
  ok :: bool
  status :: nat
  statusText :: string
  blobUrl :: "string outcome"

text \<open>
  The world outside of the repository, as parameters: the environment variable
  \<^verbatim>\<open>API_KEY\<close>, and the answers of the SDK and of \<^verbatim>\<open>fetch\<close>. \<open>generateContent\<close> takes
  the two strings interpolated into the request and gives \<^verbatim>\<open>response.text\<close>;
  \<open>generateImages\<close> gives \<^verbatim>\<open>response.generatedImages?.[0]?.image?.imageBytes\<close>;
  \<open>getVideosOperation k\<close> is the answer to the \<open>k\<close>-th poll and \<open>fetch url i\<close> the answer
  to attempt \<open>i\<close>.
\<close>

record Env =
  apiKey :: "string option"
  generateContent :: "string \<Rightarrow> string \<Rightarrow> string option outcome"
  generateImages :: "string \<Rightarrow> string option outcome"
  generateVideos :: "string \<Rightarrow> Operation outcome"
  getVideosOperation :: "nat \<Rightarrow> Operation outcome"
  fetch :: "string \<Rightarrow> nat \<Rightarrow> Response outcome"

text \<open>JavaScript truthiness of a \<^verbatim>\<open>string | null | undefined\<close>.\<close>

definition truthy :: "string option \<Rightarrow> bool" where
  "truthy v = (case v of None \<Rightarrow> False | Some x \<Rightarrow> x \<noteq> [])"

text \<open>\<^verbatim>\<open>getAiClient\<close>: the client is represented by its key.\<close>

definition getAiClient :: "Env \<Rightarrow> string outcome" where
  "getAiClient env =
     (case apiKey env of
        None \<Rightarrow> Raised MissingApiKey
      | Some k \<Rightarrow> if k = [] then Raised MissingApiKey else Returned k)"

definition is_ws :: "char \<Rightarrow> bool" where
  "is_ws ch = (ch \<in> set [CHR 0x20, CHR 0x09, CHR 0x0A, CHR 0x0B, CHR 0x0C, CHR 0x0D])"

definition trim :: "string \<Rightarrow> string" where
  "trim str = rev (dropWhile is_ws (rev (dropWhile is_ws str)))"

definition refineImagePrompt :: "Env \<Rightarrow> string \<Rightarrow> string \<Rightarrow> string outcome" where
  "refineImagePrompt env originalPrompt slideTitle =
     (case getAiClient env of
        Raised e \<Rightarrow> Raised e
      | Returned ai \<Rightarrow>
          if length originalPrompt > 150 then Returned originalPrompt
          else (case generateContent env originalPrompt slideTitle of
                  Raised e \<Rightarrow> Returned originalPrompt
                | Returned text \<Rightarrow>
                    (case map_option trim text of
                       None \<Rightarrow> Returned originalPrompt
                     | Some trimmed \<Rightarrow>
                         if trimmed \<noteq> [] then Returned trimmed else Returned originalPrompt)))"

text \<open>The style text that the two generation calls append to the prompt.\<close>

definition imageStyle :: string where
  "imageStyle = '' , photorealistic, cinematic lighting, 8k, high quality, professional photography, no text, no words''"

definition videoStyle :: string where
  "videoStyle = '', cinematic, smooth motion, high quality, 4k''"

definition generateSlideImage :: "Env \<Rightarrow> string \<Rightarrow> string option outcome" where
  "generateSlideImage env prompt =
     (case getAiClient env of
        Raised e \<Rightarrow> Raised e
      | Returned ai \<Rightarrow>
          (case generateImages env (prompt @ imageStyle) of
             Raised e \<Rightarrow> Returned None
           | Returned None \<Rightarrow> Returned None
           | Returned (Some base64) \<Rightarrow>
               if base64 \<noteq> []
               then Returned (Some (''data:image/jpeg;base64,'' @ base64))
               else Returned None))"

text \<open>
  The polling loop \<^verbatim>\<open>while (!operation.done)\<close> may go on for ever: it runs on fuel, and
  \<open>None\<close> says that the fuel was used up before the operation was done.
\<close>

fun pollLoop :: "Env \<Rightarrow> nat \<Rightarrow> nat \<Rightarrow> Operation \<Rightarrow> Operation outcome option" where
  "pollLoop env 0 k operation = (if op_done operation then Some (Returned operation) else None)"
| "pollLoop env (Suc fuel) k operation =
     (if op_done operation then Some (Returned operation)
      else case getVideosOperation env k of
             Raised e \<Rightarrow> Some (Raised e)
           | Returned operation' \<Rightarrow> pollLoop env fuel (Suc k) operation')"

text \<open>One pass through the body of the retry loop: a URL is returned, or the loop
  continues after a 404, or an error is thrown into the inner \<^verbatim>\<open>catch\<close>.\<close>

datatype attempt = Got string | Retry | Failed error

definition fetchAttempt :: "Env \<Rightarrow> string \<Rightarrow> nat \<Rightarrow> attempt" where
  "fetchAttempt env fetchUrl i =
     (case fetch env fetchUrl i of
        Raised e \<Rightarrow> Failed e
      | Returned res \<Rightarrow>
          if ok res then (case blobUrl res of Raised e \<Rightarrow> Failed e | Returned u \<Rightarrow> Got u)
          else if status res = 404 then Retry
          else Failed (ServiceError (''Failed to fetch video: '' @ statusText res)))"

text \<open>\<^verbatim>\<open>for (let i = 0; i < 3; i++)\<close> with \<open>n\<close> passes left; leaving the loop leads to
  \<^verbatim>\<open>return null\<close>.\<close>

fun fetchLoop :: "Env \<Rightarrow> string \<Rightarrow> nat \<Rightarrow> nat \<Rightarrow> string option outcome" where
  "fetchLoop env fetchUrl i 0 = Returned None"
| "fetchLoop env fetchUrl i (Suc n) =
     (case fetchAttempt env fetchUrl i of
        Got u \<Rightarrow> Returned (Some u)
      | Retry \<Rightarrow> fetchLoop env fetchUrl (Suc i) n
      | Failed e \<Rightarrow> if i = 2 then Raised e else fetchLoop env fetchUrl (Suc i) n)"

text \<open>The body of the \<^verbatim>\<open>try\<close> block of \<^verbatim>\<open>generateSlideVideo\<close>.\<close>

definition videoBody :: "Env \<Rightarrow> nat \<Rightarrow> string \<Rightarrow> string \<Rightarrow> string option outcome option" where
  "videoBody env fuel key prompt =
     (case generateVideos env (prompt @ videoStyle) of
        Raised e \<Rightarrow> Some (Raised e)
      | Returned operation \<Rightarrow>
          (case pollLoop env fuel 0 operation of
             None \<Rightarrow> None
           | Some (Raised e) \<Rightarrow> Some (Raised e)
           | Some (Returned operation') \<Rightarrow>
               (case videoUri operation' of
                  None \<Rightarrow> Some (Returned None)
                | Some uri \<Rightarrow>
                    if uri \<noteq> []
                    then Some (fetchLoop env (uri @ ''&key='' @ key) 0 3)
                    else Some (Returned None))))"

definition generateSlideVideo :: "Env \<Rightarrow> nat \<Rightarrow> string \<Rightarrow> string option outcome option" where
  "generateSlideVideo env fuel prompt =
     (case getAiClient env of
        Raised e \<Rightarrow> Some (Raised e)
      | Returned key \<Rightarrow>
          (case videoBody env fuel key prompt of
             None \<Rightarrow> None
           | Some (Raised e) \<Rightarrow> Some (Returned None)
           | Some (Returned url) \<Rightarrow> Some (Returned url)))"

section \<open>Media generation (App component)\<close>

text \<open>The parameter \<^verbatim>\<open>type: 'image' | 'video'\<close> of \<^verbatim>\<open>generateMediaForSlide\<close>.\<close>

datatype JobType = ImageJob | VideoJob

definition mediaOf :: "JobType \<Rightarrow> MediaType" where
  "mediaOf ty = (case ty of VideoJob \<Rightarrow> Video | ImageJob \<Rightarrow> Image)"

text \<open>The optimistic update before the first \<^verbatim>\<open>await\<close>, a functional update of the
  live slides.\<close>

definition markLoading :: "string \<Rightarrow> JobType \<Rightarrow> App \<Rightarrow> App" where
  "markLoading slideId ty s =
     s\<lparr>slides := map (\<lambda>x. if sid x = slideId
                            then x\<lparr>isLoadingMedia := Some True, mediaType := mediaOf ty\<rparr>
                            else x) (slides s)\<rparr>"

text \<open>
  What the \<^verbatim>\<open>try\<close> block awaits: the optional prompt refinement, whose failure is
  caught on the spot, then the generation call. \<open>None\<close>: the video poll did not finish
  within the fuel.
\<close>

definition callChain :: "Env \<Rightarrow> nat \<Rightarrow> Slide \<Rightarrow> JobType \<Rightarrow> string option outcome option" where
  "callChain env fuel slide ty =
     (let activePrompt =
            (if length (imagePrompt slide) < 100 \<and> CHR '','' \<notin> set (imagePrompt slide)
             then (case refineImagePrompt env (imagePrompt slide) (title slide) of
                     Raised err \<Rightarrow> imagePrompt slide
                   | Returned refined \<Rightarrow> refined)
             else imagePrompt slide)
      in case ty of
           VideoJob \<Rightarrow> generateSlideVideo env fuel activePrompt
         | ImageJob \<Rightarrow> Some (generateSlideImage env activePrompt))"

text \<open>
  The rest of \<^verbatim>\<open>generateMediaForSlide\<close> once the call chain has settled with \<open>out\<close>:
  \<open>c\<close> is the state of the render in which the job was started (the function still
  holds that render's \<^verbatim>\<open>slides\<close>, \<^verbatim>\<open>presentationTitle\<close> and \<^verbatim>\<open>pushToHistory\<close>),
  \<open>s\<close> is the live state at that moment.
\<close>

definition settle :: "App \<Rightarrow> string \<Rightarrow> JobType \<Rightarrow> string option outcome \<Rightarrow> App \<Rightarrow> App" where
  "settle c slideId ty out s =
     (case out of
        Raised e \<Rightarrow>
          s\<lparr>slides := map (\<lambda>x. if sid x = slideId
                                 then x\<lparr>isLoadingMedia := Some False, mediaType := None_m\<rparr>
                                 else x) (slides s),
            alerts := alerts s @ [''Media generation failed. Please try again.'']\<rparr>
      | Returned url \<Rightarrow>
          let updatedSlides =
                map (\<lambda>x. if sid x = slideId
                          then x\<lparr>isLoadingMedia := Some False,
                                 mediaUrl := (if truthy url then url else None),
                                 mediaType := (if truthy url then mediaOf ty else None_m)\<rparr>
                          else x) (slides c)
          in pushToHistory c updatedSlides (presentationTitle c) (s\<lparr>slides := updatedSlides\<rparr>))"

text \<open>
  A whole run of \<^verbatim>\<open>generateMediaForSlide\<close> started in the render with state \<open>c\<close>, with
  no other event between its start and its end. \<open>None\<close>: the job is still polling when
  the fuel is used up.
\<close>

definition generateMediaForSlide :: "Env \<Rightarrow> nat \<Rightarrow> string \<Rightarrow> JobType \<Rightarrow> App \<Rightarrow> App option" where
  "generateMediaForSlide env fuel slideId ty c =
     (let s1 = pushToHistory c (slides c) (presentationTitle c) c
      in case find (\<lambda>x. sid x = slideId) (slides c) of
           None \<Rightarrow> Some s1
         | Some slide \<Rightarrow>
             (case callChain env fuel slide ty of
                None \<Rightarrow> None
              | Some out \<Rightarrow> Some (settle c slideId ty out (markLoading slideId ty s1))))"

section \<open>Concrete slides, states and environments\<close>

definition slideA :: Slide where
  "slideA = \<lparr>sid = ''A'', layout = Title, title = ''Intro'', subtitle = None,
              content = [''one''], imagePrompt = ''a mountain lake, at dawn'',
              mediaType = None_m, mediaUrl = None, isLoadingMedia = Some False,
              notes_s = None\<rparr>"

definition deckA :: App where
  "deckA = \<lparr>slides = [slideA], currentSlideIndex = 0, presentationTitle = ''Talk'',
             history = [\<lparr>e_slides = [slideA], e_title = ''Talk''\<rparr>], historyIndex = 0,
             isRestoringHistory = False, alerts = []\<rparr>"

text \<open>The first slide after its image was generated automatically: the slide carries
  the image, the only history entry does not.\<close>

definition slideWithImage :: Slide where
  "slideWithImage = slideA\<lparr>mediaType := Image, mediaUrl := Some ''data:image/jpeg;base64,AAAA''\<rparr>"

definition deckAuto :: App where
  "deckAuto = deckA\<lparr>slides := [slideWithImage]\<rparr>"

text \<open>A deck restored from local storage: the saved slide carries an image, and the
  log is seeded with the restored state.\<close>

definition deckRestored :: App where
  "deckRestored = deckA\<lparr>slides := [slideWithImage],
                         history := [\<lparr>e_slides = [slideWithImage], e_title = ''Talk''\<rparr>]\<rparr>"

text \<open>Environments: the service answers every request with an error; no key is
  configured; the image model produces nothing.\<close>

definition envDown :: Env where
  "envDown = \<lparr>apiKey = Some ''k'',
               generateContent = (\<lambda>p t. Raised (ServiceError ''503'')),
               generateImages = (\<lambda>p. Raised (ServiceError ''503'')),
               generateVideos = (\<lambda>p. Raised (ServiceError ''503'')),
               getVideosOperation = (\<lambda>k. Raised (ServiceError ''503'')),
               fetch = (\<lambda>u i. Raised (ServiceError ''503''))\<rparr>"

definition envNoKey :: Env where
  "envNoKey = envDown\<lparr>apiKey := None\<rparr>"

definition envEmpty :: Env where
  "envEmpty = envDown\<lparr>generateImages := (\<lambda>p. Returned None)\<rparr>"

text \<open>Environments for the video path: the second poll answers with an error; the
  operation is done at once and every download attempt fails; the download is not
  found twice and then succeeds.\<close>

definition envPollFail :: Env where
  "envPollFail = envDown\<lparr>
     generateVideos := (\<lambda>p. Returned \<lparr>op_done = False, videoUri = None\<rparr>),
     getVideosOperation := (\<lambda>k. if k = 0 then Returned \<lparr>op_done = False, videoUri = None\<rparr>
                                 else Raised (ServiceError ''poll''))\<rparr>"

definition envFetchFail :: Env where
  "envFetchFail = envDown\<lparr>
     generateVideos := (\<lambda>p. Returned \<lparr>op_done = True, videoUri = Some ''https://v/1?alt=media''\<rparr>)\<rparr>"

definition envVideoOk :: Env where
  "envVideoOk = envFetchFail\<lparr>
     fetch := (\<lambda>u i. if i < 2
                      then Returned \<lparr>ok = False, status = 404, statusText = ''Not Found'',
                                     blobUrl = Raised TypeError\<rparr>
                      else Returned \<lparr>ok = True, status = 200, statusText = ''OK'',
                                     blobUrl = Returned ''blob:1''\<rparr>)\<rparr>"

section \<open>Properties of the history log\<close>

lemma slice0_nonneg: "0 \<le> e \<Longrightarrow> slice0 e xs = take (nat e) xs"
  by (simp add: slice0_def Let_def min_def)

lemma length_slice0: "length (slice0 e xs) \<le> length xs"
  by (simp add: slice0_def Let_def)

text \<open>The bound on the length of the log holds for every push, whatever render issued it.\<close>

lemma length_history_pushToHistory:
  "length (history s) \<le> 30 \<Longrightarrow> length (history (pushToHistory c sl t s)) \<le> 30"
  using length_slice0 [of "historyIndex c + 1" "history s"]
  by (simp add: pushToHistory_def Let_def)

lemma length_history_pushes:
  "length (history s) \<le> 30 \<Longrightarrow> length (history (pushes k n s)) \<le> 30"
  by (induction n arbitrary: k s) (simp_all add: push_def length_history_pushToHistory)

text \<open>Below the bound a push prunes the redo branch, appends, and leaves the index on
  the new last entry.\<close>

lemma push_below_bound:
  assumes "- 1 \<le> historyIndex s" "historyIndex s < 29"
    and "historyIndex s < int (length (history s))" "length (history s) \<le> 30"
  shows "history (push sl t s) =
           take (nat (historyIndex s + 1)) (history s) @ [\<lparr>e_slides = sl, e_title = t\<rparr>]"
    and "historyIndex (push sl t s) = historyIndex s + 1"
    and "historyIndex (push sl t s) = int (length (history (push sl t s))) - 1"
    and "slides (push sl t s) = slides s"
    and "isRestoringHistory (push sl t s) = isRestoringHistory s"
  using assms by (auto simp: push_def pushToHistory_def Let_def slice0_nonneg)

lemma nth_js_after_push:
  assumes "- 1 \<le> historyIndex s" "historyIndex s < 29"
    and "historyIndex s < int (length (history s))" "length (history s) \<le> 30"
  shows "nth_js (history (push sl t s)) (historyIndex (push sl t s))
           = Some \<lparr>e_slides = sl, e_title = t\<rparr>"
proof -
  have "length (take (nat (historyIndex s + 1)) (history s)) = nat (historyIndex s + 1)"
    using assms by simp
  then show ?thesis
    using assms push_below_bound(1,2) [OF assms, of sl t]
    by (simp add: nth_js_def nth_append)
qed

text \<open>Below the bound, undo right after a push restores the entry the index pointed at
  before the push.\<close>

lemma undo_push_below_bound:
  assumes "- 1 \<le> historyIndex s" "historyIndex s < 29"
    and "nth_js (history s) (historyIndex s) = Some e" and "length (history s) \<le> 30"
  shows "undo (push sl t s) =
           Inr ((push sl t s)\<lparr>isRestoringHistory := True, slides := e_slides e,
                               presentationTitle := e_title e, historyIndex := historyIndex s\<rparr>)"
proof -
  from assms(3) have r: "0 \<le> historyIndex s" "historyIndex s < int (length (history s))"
    and e: "e = history s ! nat (historyIndex s)"
    by (auto simp: nth_js_def split: if_splits)
  have h: "history (push sl t s) =
             take (nat (historyIndex s + 1)) (history s) @ [\<lparr>e_slides = sl, e_title = t\<rparr>]"
    and i: "historyIndex (push sl t s) = historyIndex s + 1"
    using push_below_bound [OF assms(1,2) r(2) assms(4)] by simp_all
  have "nth_js (history (push sl t s)) (historyIndex s) = Some e"
    using r e by (simp add: h nth_js_def nth_append)
  then show ?thesis using r by (simp add: undo_def i)
qed

lemma undo_at_start: "historyIndex s \<le> 0 \<Longrightarrow> undo s = Inr s"
  by (simp add: undo_def)

text \<open>After a push of the current render there is nothing to redo.\<close>

lemma redo_after_push:
  assumes "- 1 \<le> historyIndex s" "length (history s) \<le> 30"
  shows "redo (push sl t s) = Inr (push sl t s)"
  using assms by (auto simp: redo_def push_def pushToHistory_def Let_def slice0_nonneg)

text \<open>On a full log with the index on the last entry, a push keeps 30 entries and
  moves the index to 30.\<close>

lemma push_on_full_log:
  assumes "length (history s) = 30" "historyIndex s = 29"
  shows "length (history (push sl t s)) = 30" and "historyIndex (push sl t s) = 30"
    and "nth_js (history (push sl t s)) (historyIndex (push sl t s)) = None"
  using assms by (simp_all add: push_def pushToHistory_def Let_def slice0_nonneg nth_js_def)

text \<open>
  Claim C1: after every sequence of history operations the index stays within
  \<open>[-1, length - 1]\<close>, and a push onto a log that holds 30 entries drops the oldest
  entry and leaves the index on the entry just appended.

  The code does not keep the index in range. Thirty pushes fill the log (30 entries,
  index 29). The next push drops the oldest entry, but the adjustment of the index
  tests the length of the log before the push (\<^verbatim>\<open>history.length > 30\<close>), which is 30:
  the index becomes 30, one past the last entry, and \<^verbatim>\<open>history[historyIndex]\<close> is
  \<^verbatim>\<open>undefined\<close>.
\<close>

theorem push_full_log_index_out_of_range:
  "length (history (pushes 0 30 initialApp)) = 30
   \<and> historyIndex (pushes 0 30 initialApp) = 29
   \<and> length (history (pushes 0 31 initialApp)) = 30
   \<and> historyIndex (pushes 0 31 initialApp) = 30
   \<and> nth_js (history (pushes 0 31 initialApp)) (historyIndex (pushes 0 31 initialApp)) = None"
  by code_simp

text \<open>
  Claim C5: the log never holds more than 30 entries, and after an overflow the newest
  30 entries remain navigable by undo and redo.

  The bound on the length holds (\<open>length_history_pushes\<close>). Navigation does not survive:
  every push onto the full log moves the index one further past the end, and after
  two of them \<^verbatim>\<open>undo\<close> reads \<^verbatim>\<open>history[30]\<close> of a log of 30 entries and throws.
\<close>

theorem undo_after_two_overflows_throws:
  "length (history (pushes 0 32 initialApp)) = 30
   \<and> historyIndex (pushes 0 32 initialApp) = 31
   \<and> undo (pushes 0 32 initialApp) = Inl TypeError"
  by code_simp

text \<open>
  Claim C6: undo right after a push restores the title and slides of the snapshot that
  preceded the pushed one; undo does nothing at an index \<open>\<le> 0\<close>, and otherwise
  decrements the index and restores the entry then pointed at.

  Below the bound this is what happens (\<open>undo_push_below_bound\<close>, \<open>undo_at_start\<close>). On
  the full log it is not: the last entry is snapshot 29, the snapshot titled \<open>new\<close> is
  pushed, and undo restores \<open>new\<close> itself, the index being left one too high by the push.
\<close>

theorem undo_after_overflow_restores_pushed:
  "nth_js (history (pushes 0 30 initialApp)) (historyIndex (pushes 0 30 initialApp))
     = Some (snap 29)
   \<and> map_sum id (\<lambda>s. (presentationTitle s, historyIndex s))
        (undo (push [] ''new'' (pushes 0 30 initialApp))) = Inr (''new'', 29)"
  by code_simp

text \<open>
  Claim C7: a push appends its snapshot at index + 1 and discards the entries beyond
  the index, so that after a push the index equals length - 1 and redo does nothing.

  Redo does nothing after a push (\<open>redo_after_push\<close>), and below the bound the index is
  length - 1 (\<open>push_below_bound\<close>). On the full log the snapshot lands at position 29
  while the index becomes 30, which is not length - 1.
\<close>

theorem push_full_log_index_not_last:
  "historyIndex (push [] ''new'' (pushes 0 30 initialApp)) = 30
   \<and> int (length (history (push [] ''new'' (pushes 0 30 initialApp)))) - 1 = 29
   \<and> nth_js (history (push [] ''new'' (pushes 0 30 initialApp))) 29
       = Some \<lparr>e_slides = [], e_title = ''new''\<rparr>
   \<and> redo (push [] ''new'' (pushes 0 30 initialApp))
       = Inr (push [] ''new'' (pushes 0 30 initialApp))"
  by code_simp

lemma saveSnapshot_restoring: "isRestoringHistory s \<Longrightarrow> saveSnapshot s = s"
  by (simp add: saveSnapshot_def)

lemma saveSnapshot_same_slides:
  "map_option e_slides (nth_js (history s) (historyIndex s)) = Some (slides s)
   \<Longrightarrow> saveSnapshot s = s"
  by (auto simp: saveSnapshot_def split: option.splits)

lemma saveSnapshot_pushes:
  "\<not> isRestoringHistory s \<Longrightarrow>
   map_option e_slides (nth_js (history s) (historyIndex s)) \<noteq> Some (slides s) \<Longrightarrow>
   saveSnapshot s = push (slides s) (presentationTitle s) s"
  by (auto simp: saveSnapshot_def split: option.splits)

lemma saveSnapshot_twice:
  assumes "- 1 \<le> historyIndex s" "historyIndex s < 29"
    and "historyIndex s < int (length (history s))" "length (history s) \<le> 30"
  shows "saveSnapshot (saveSnapshot s) = saveSnapshot s"
proof (cases "isRestoringHistory s
              \<or> map_option e_slides (nth_js (history s) (historyIndex s)) = Some (slides s)")
  case True
  then have "saveSnapshot s = s"
    using saveSnapshot_restoring saveSnapshot_same_slides by blast
  then show ?thesis by simp
next
  case False
  then have p: "saveSnapshot s = push (slides s) (presentationTitle s) s"
    by (simp add: saveSnapshot_pushes)
  have "map_option e_slides (nth_js (history (push (slides s) (presentationTitle s) s))
          (historyIndex (push (slides s) (presentationTitle s) s)))
        = Some (slides (push (slides s) (presentationTitle s) s))"
    using nth_js_after_push [OF assms] push_below_bound(4) [OF assms] by simp
  then show ?thesis
    unfolding p by (rule saveSnapshot_same_slides)
qed

text \<open>
  Claim C2, as amended: while a restoration is in flight \<^verbatim>\<open>saveSnapshot\<close> does nothing;
  otherwise it compares the slides of the deck, and only the slides, with the slides
  of the entry at the current index: if that entry exists and the slides are equal it
  pushes nothing, otherwise it pushes the deck exactly once. So, with the index on an
  entry before the last place of the log, a second \<^verbatim>\<open>saveSnapshot\<close> with no change of
  the deck in between adds nothing; and a change of the title alone is dropped as a
  duplicate.
\<close>

theorem saveSnapshot_slides_only:
  "(isRestoringHistory s \<longrightarrow> saveSnapshot s = s)
   \<and> (map_option e_slides (nth_js (history s) (historyIndex s)) = Some (slides s)
        \<longrightarrow> saveSnapshot s = s)
   \<and> (\<not> isRestoringHistory s
        \<and> map_option e_slides (nth_js (history s) (historyIndex s)) \<noteq> Some (slides s)
        \<longrightarrow> saveSnapshot s = push (slides s) (presentationTitle s) s)
   \<and> (- 1 \<le> historyIndex s \<and> historyIndex s < 29
        \<and> historyIndex s < int (length (history s)) \<and> length (history s) \<le> 30
        \<longrightarrow> saveSnapshot (saveSnapshot s) = saveSnapshot s)"
  using saveSnapshot_restoring saveSnapshot_same_slides saveSnapshot_pushes saveSnapshot_twice
  by blast

text \<open>Claim C2, the amended statement at concrete decks: a restoration in flight, an
  unchanged deck, and a deck whose slides were all removed, saved twice.\<close>

theorem saveSnapshot_slides_only_witness:
  "saveSnapshot (deckA\<lparr>slides := [], isRestoringHistory := True\<rparr>)
     = deckA\<lparr>slides := [], isRestoringHistory := True\<rparr>
   \<and> saveSnapshot deckA = deckA
   \<and> saveSnapshot (deckA\<lparr>slides := []\<rparr>) = push [] ''Talk'' (deckA\<lparr>slides := []\<rparr>)
   \<and> saveSnapshot (saveSnapshot (deckA\<lparr>slides := []\<rparr>)) = saveSnapshot (deckA\<lparr>slides := []\<rparr>)"
proof -
  have a: "isRestoringHistory (deckA\<lparr>slides := [], isRestoringHistory := True\<rparr>)"
    by simp
  have b: "map_option e_slides (nth_js (history deckA) (historyIndex deckA)) = Some (slides deckA)"
    by (simp add: deckA_def nth_js_def)
  have c: "\<not> isRestoringHistory (deckA\<lparr>slides := []\<rparr>)
           \<and> map_option e_slides (nth_js (history (deckA\<lparr>slides := []\<rparr>))
                 (historyIndex (deckA\<lparr>slides := []\<rparr>))) \<noteq> Some (slides (deckA\<lparr>slides := []\<rparr>))"
    by (simp add: deckA_def nth_js_def)
  have d: "- 1 \<le> historyIndex (deckA\<lparr>slides := []\<rparr>) \<and> historyIndex (deckA\<lparr>slides := []\<rparr>) < 29
           \<and> historyIndex (deckA\<lparr>slides := []\<rparr>) < int (length (history (deckA\<lparr>slides := []\<rparr>)))
           \<and> length (history (deckA\<lparr>slides := []\<rparr>)) \<le> 30"
    by (simp add: deckA_def)
  have t: "presentationTitle (deckA\<lparr>slides := []\<rparr>) = ''Talk''"
    by (simp add: deckA_def)
  have 1: "saveSnapshot (deckA\<lparr>slides := [], isRestoringHistory := True\<rparr>)
             = deckA\<lparr>slides := [], isRestoringHistory := True\<rparr>"
    using saveSnapshot_slides_only [of "deckA\<lparr>slides := [], isRestoringHistory := True\<rparr>"] a
    by blast
  have 2: "saveSnapshot deckA = deckA"
    using saveSnapshot_slides_only [of deckA] b by blast
  have 3: "saveSnapshot (deckA\<lparr>slides := []\<rparr>) = push [] ''Talk'' (deckA\<lparr>slides := []\<rparr>)"
    using saveSnapshot_slides_only [of "deckA\<lparr>slides := []\<rparr>"] c unfolding t by simp
  have 4: "saveSnapshot (saveSnapshot (deckA\<lparr>slides := []\<rparr>)) = saveSnapshot (deckA\<lparr>slides := []\<rparr>)"
    using saveSnapshot_slides_only [of "deckA\<lparr>slides := []\<rparr>"] d by blast
  from 1 2 3 4 show ?thesis by blast
qed

text \<open>Claim C2 as stated fails: the title of the deck differs from the title of the
  entry at the index, the slides are the same, and nothing is pushed.\<close>

theorem saveSnapshot_title_change_counterexample:
  "saveSnapshot (deckA\<lparr>presentationTitle := ''Renamed''\<rparr>)
     = deckA\<lparr>presentationTitle := ''Renamed''\<rparr>"
  by (simp add: saveSnapshot_def deckA_def nth_js_def)

section \<open>Properties of the editing operations\<close>

lemma filter_enumerate_above:
  "index < int n \<Longrightarrow> filter (\<lambda>(i, x). int i \<noteq> index) (enumerate n xs) = enumerate n xs"
  by (induction xs arbitrary: n) auto

text \<open>The filter of \<^verbatim>\<open>deleteSlide\<close> removes at most one element.\<close>

lemma length_removeAt_aux:
  "length xs \<le> Suc (length (filter (\<lambda>(i, x). int i \<noteq> index) (enumerate n xs)))"
proof (induction xs arbitrary: n)
  case Nil
  then show ?case by simp
next
  case (Cons y ys)
  show ?case
  proof (cases "int n = index")
    case True
    then have "index < int (Suc n)" by simp
    then show ?thesis using True by (simp add: filter_enumerate_above)
  next
    case False
    then show ?thesis using Cons.IH [of "Suc n"] by simp
  qed
qed

lemma length_removeAt: "length xs \<le> Suc (length (removeAt index xs))"
  using length_removeAt_aux [of xs index 0] by (simp add: removeAt_def)

lemma slides_pushToHistory: "slides (pushToHistory c sl t s) = slides s"
  and alerts_pushToHistory: "alerts (pushToHistory c sl t s) = alerts s"
  by (simp_all add: pushToHistory_def)

lemma slides_deleteSlide:
  "slides (deleteSlide index s) =
     (if length (slides s) \<le> 1 then slides s else removeAt index (slides s))"
  by (simp add: deleteSlide_def Let_def slides_pushToHistory)

lemma deleteSlide_nonempty: "slides s \<noteq> [] \<Longrightarrow> slides (deleteSlide index s) \<noteq> []"
  using length_removeAt [of "slides s" index]
  by (auto simp: slides_deleteSlide)

lemma fold_deleteSlide_nonempty:
  "slides s \<noteq> [] \<Longrightarrow> slides (fold deleteSlide idxs s) \<noteq> []"
  by (induction idxs arbitrary: s) (simp_all add: deleteSlide_nonempty)

text \<open>
  Claim C9: on a deck with exactly one slide \<^verbatim>\<open>deleteSlide\<close>, at any index, only shows
  its message and leaves the deck and everything else as they were; hence a deck that
  has a slide still has one after any sequence of deletions.
\<close>

theorem deleteSlide_keeps_last_slide:
  assumes "slides s \<noteq> []"
  shows "(length (slides s) = 1 \<longrightarrow>
            deleteSlide index s
              = s\<lparr>alerts := alerts s @ [''Presentation must have at least one slide.'']\<rparr>)
         \<and> slides (fold deleteSlide idxs s) \<noteq> []"
  using assms by (simp add: fold_deleteSlide_nonempty deleteSlide_def)

text \<open>Claim C9 at the deck of one slide, and at a deck of three slides after three
  deletions.\<close>

theorem deleteSlide_keeps_last_slide_witness:
  "slides deckA \<noteq> [] \<and> length (slides deckA) = 1
   \<and> deleteSlide 0 deckA = deckA\<lparr>alerts := [''Presentation must have at least one slide.'']\<rparr>
   \<and> slides (fold deleteSlide [0, 7, - 1] (deckA\<lparr>slides := [slideA, slideA, slideA]\<rparr>)) \<noteq> []"
proof -
  have a: "slides deckA \<noteq> []" "length (slides deckA) = 1" "alerts deckA = []"
    by (simp_all add: deckA_def)
  have b: "slides (deckA\<lparr>slides := [slideA, slideA, slideA]\<rparr>) \<noteq> []"
    by simp
  show ?thesis
    using deleteSlide_keeps_last_slide [OF a(1), of 0 "[]"]
      deleteSlide_keeps_last_slide [OF b, of 0 "[0, 7, - 1]"] a
    by simp
qed

section \<open>Properties of the generation client\<close>

lemma truthy_Some: "truthy (Some k) = (k \<noteq> [])"
  and truthy_None: "\<not> truthy None"
  by (simp_all add: truthy_def)

lemma getAiClient_cases:
  "getAiClient env =
     (if truthy (apiKey env) then Returned (the (apiKey env)) else Raised MissingApiKey)"
  by (simp add: getAiClient_def truthy_def split: option.splits)

lemma generateSlideImage_raises:
  "generateSlideImage env p = Raised e \<longleftrightarrow> \<not> truthy (apiKey env) \<and> e = MissingApiKey"
  by (auto simp: generateSlideImage_def getAiClient_cases split: outcome.splits option.splits)

lemma generateSlideVideo_raises:
  "generateSlideVideo env fuel p = Some (Raised e)
     \<longleftrightarrow> \<not> truthy (apiKey env) \<and> e = MissingApiKey"
  by (auto simp: generateSlideVideo_def getAiClient_cases split: outcome.splits option.splits)

text \<open>A poll that is answered by an error after \<open>k\<close> unfinished answers ends the loop
  with that error, given fuel for \<open>k + 1\<close> polls.\<close>

lemma pollLoop_raise:
  assumes "\<forall>j<k. \<exists>operation. getVideosOperation env (i + j) = Returned operation
                                 \<and> \<not> op_done operation"
    and "getVideosOperation env (i + k) = Raised e" and "\<not> op_done op0" and "k < fuel"
  shows "pollLoop env fuel i op0 = Some (Raised e)"
  using assms
proof (induction k arbitrary: i op0 fuel)
  case 0
  then obtain f where "fuel = Suc f" by (cases fuel) auto
  with 0 show ?case by simp
next
  case (Suc k)
  then obtain f where f: "fuel = Suc f" "k < f" by (cases fuel) auto
  from Suc.prems(1) obtain op1
    where op1: "getVideosOperation env i = Returned op1" "\<not> op_done op1"
    by force
  have "\<forall>j<k. \<exists>operation. getVideosOperation env (Suc i + j) = Returned operation
                              \<and> \<not> op_done operation"
  proof (intro allI impI)
    fix j assume "j < k"
    then have "Suc j < Suc k" by simp
    with Suc.prems(1)
    show "\<exists>operation. getVideosOperation env (Suc i + j) = Returned operation
                       \<and> \<not> op_done operation"
      by (metis add_Suc_right add_Suc)
  qed
  moreover have "getVideosOperation env (Suc i + k) = Raised e"
    using Suc.prems(2) by simp
  ultimately have "pollLoop env f (Suc i) op1 = Some (Raised e)"
    using Suc.IH op1(2) f(2) by blast
  then show ?case using Suc.prems(3) op1 f by simp
qed

text \<open>
  Claim C10: \<^verbatim>\<open>generateSlideImage\<close> and \<^verbatim>\<open>generateSlideVideo\<close> raise only the
  missing-key error of \<^verbatim>\<open>getAiClient\<close>, and exactly when no key is configured. With
  a key, an error of the generation request, of a poll (given fuel to reach it) or of
  the download loop gives the result \<^verbatim>\<open>null\<close>, which is also the result of a
  generation that succeeded with nothing to show: the caller cannot tell them apart.
\<close>

theorem generation_failures_become_null:
  "(generateSlideImage env p = Raised e \<longleftrightarrow> \<not> truthy (apiKey env) \<and> e = MissingApiKey)
   \<and> (generateSlideVideo env fuel p = Some (Raised e)
        \<longleftrightarrow> \<not> truthy (apiKey env) \<and> e = MissingApiKey)
   \<and> (truthy (apiKey env) \<and> generateImages env (p @ imageStyle) = Raised e'
        \<longrightarrow> generateSlideImage env p = Returned None)
   \<and> (truthy (apiKey env) \<and> generateImages env (p @ imageStyle) = Returned None
        \<longrightarrow> generateSlideImage env p = Returned None)
   \<and> (truthy (apiKey env) \<and> generateVideos env (p @ videoStyle) = Raised e'
        \<longrightarrow> generateSlideVideo env fuel p = Some (Returned None))
   \<and> (truthy (apiKey env) \<and> generateVideos env (p @ videoStyle) = Returned op0
        \<and> \<not> op_done op0
        \<and> (\<forall>j<k. \<exists>operation. getVideosOperation env j = Returned operation
                                  \<and> \<not> op_done operation)
        \<and> getVideosOperation env k = Raised e' \<and> k < fuel
        \<longrightarrow> generateSlideVideo env fuel p = Some (Returned None))
   \<and> (apiKey env = Some key \<and> key \<noteq> [] \<and> generateVideos env (p @ videoStyle) = Returned op0
        \<and> pollLoop env fuel 0 op0 = Some (Returned op1)
        \<and> videoUri op1 = Some uri \<and> uri \<noteq> []
        \<and> fetchLoop env (uri @ ''&key='' @ key) 0 3 = Raised e'
        \<longrightarrow> generateSlideVideo env fuel p = Some (Returned None))
   \<and> (truthy (apiKey env) \<and> generateVideos env (p @ videoStyle) = Returned op0
        \<and> pollLoop env fuel 0 op0 = Some (Returned op1) \<and> \<not> truthy (videoUri op1)
        \<longrightarrow> generateSlideVideo env fuel p = Some (Returned None))"
proof (intro conjI impI)
  show "generateSlideImage env p = Raised e \<longleftrightarrow> \<not> truthy (apiKey env) \<and> e = MissingApiKey"
    by (rule generateSlideImage_raises)
  show "generateSlideVideo env fuel p = Some (Raised e)
          \<longleftrightarrow> \<not> truthy (apiKey env) \<and> e = MissingApiKey"
    by (rule generateSlideVideo_raises)
next
  assume "truthy (apiKey env) \<and> generateImages env (p @ imageStyle) = Raised e'"
  then show "generateSlideImage env p = Returned None"
    by (simp add: generateSlideImage_def getAiClient_cases)
next
  assume "truthy (apiKey env) \<and> generateImages env (p @ imageStyle) = Returned None"
  then show "generateSlideImage env p = Returned None"
    by (simp add: generateSlideImage_def getAiClient_cases)
next
  assume "truthy (apiKey env) \<and> generateVideos env (p @ videoStyle) = Raised e'"
  then show "generateSlideVideo env fuel p = Some (Returned None)"
    by (simp add: generateSlideVideo_def videoBody_def getAiClient_cases)
next
  assume a: "truthy (apiKey env) \<and> generateVideos env (p @ videoStyle) = Returned op0
        \<and> \<not> op_done op0
        \<and> (\<forall>j<k. \<exists>operation. getVideosOperation env j = Returned operation
                                  \<and> \<not> op_done operation)
        \<and> getVideosOperation env k = Raised e' \<and> k < fuel"
  then have "pollLoop env fuel 0 op0 = Some (Raised e')"
    using pollLoop_raise [of k env 0 e' op0 fuel] by simp
  with a show "generateSlideVideo env fuel p = Some (Returned None)"
    by (simp add: generateSlideVideo_def videoBody_def getAiClient_cases)
next
  assume "apiKey env = Some key \<and> key \<noteq> [] \<and> generateVideos env (p @ videoStyle) = Returned op0
        \<and> pollLoop env fuel 0 op0 = Some (Returned op1)
        \<and> videoUri op1 = Some uri \<and> uri \<noteq> []
        \<and> fetchLoop env (uri @ ''&key='' @ key) 0 3 = Raised e'"
  then show "generateSlideVideo env fuel p = Some (Returned None)"
    by (simp add: generateSlideVideo_def videoBody_def getAiClient_def truthy_def)
next
  assume "truthy (apiKey env) \<and> generateVideos env (p @ videoStyle) = Returned op0
        \<and> pollLoop env fuel 0 op0 = Some (Returned op1) \<and> \<not> truthy (videoUri op1)"
  then show "generateSlideVideo env fuel p = Some (Returned None)"
    by (auto simp: generateSlideVideo_def videoBody_def getAiClient_cases truthy_def
        split: option.splits)
qed

text \<open>Claim C10 at concrete environments: no key; a key and a service that fails the
  image request, returns no image, fails the video request, fails the second poll,
  fails all three downloads.\<close>

theorem generation_failures_become_null_witness:
  "generateSlideImage envNoKey ''p'' = Raised MissingApiKey
   \<and> generateSlideVideo envNoKey 5 ''p'' = Some (Raised MissingApiKey)
   \<and> generateSlideImage envDown ''p'' = Returned None
   \<and> generateSlideImage envEmpty ''p'' = Returned None
   \<and> generateSlideVideo envDown 5 ''p'' = Some (Returned None)
   \<and> generateSlideVideo envPollFail 5 ''p'' = Some (Returned None)
   \<and> generateSlideVideo envFetchFail 5 ''p'' = Some (Returned None)"
proof -
  note t = generation_failures_become_null
  have 1: "generateSlideImage envNoKey ''p'' = Raised MissingApiKey"
    using t [of envNoKey "''p''" MissingApiKey]
    by (simp add: envNoKey_def envDown_def truthy_def)
  have 2: "generateSlideVideo envNoKey 5 ''p'' = Some (Raised MissingApiKey)"
    using t [of envNoKey "''p''" MissingApiKey 5]
    by (simp add: envNoKey_def envDown_def truthy_def)
  have 3: "generateSlideImage envDown ''p'' = Returned None"
    using t [of envDown "''p''" _ _ "ServiceError ''503''"]
    by (simp add: envDown_def truthy_def)
  have 4: "generateSlideImage envEmpty ''p'' = Returned None"
    using t [of envEmpty "''p''"] by (simp add: envEmpty_def envDown_def truthy_def)
  have 5: "generateSlideVideo envDown 5 ''p'' = Some (Returned None)"
    using t [of envDown "''p''" _ 5 "ServiceError ''503''"]
    by (simp add: envDown_def truthy_def)
  have 6: "generateSlideVideo envPollFail 5 ''p'' = Some (Returned None)"
    using t [of envPollFail "''p''" _ 5 "ServiceError ''poll''"
        "\<lparr>op_done = False, videoUri = None\<rparr>" 1]
    by (simp add: envPollFail_def envDown_def truthy_def)
  have f: "fetchLoop envFetchFail (''https://v/1?alt=media'' @ ''&key='' @ ''k'') 0 3
             = Raised (ServiceError ''503'')"
    by (simp add: envFetchFail_def envDown_def fetchAttempt_def numeral_3_eq_3)
  have 7: "generateSlideVideo envFetchFail 5 ''p'' = Some (Returned None)"
    using t [of envFetchFail "''p''" _ 5 "ServiceError ''503''"
        "\<lparr>op_done = True, videoUri = Some ''https://v/1?alt=media''\<rparr>" _ "''k''"
        "\<lparr>op_done = True, videoUri = Some ''https://v/1?alt=media''\<rparr>"
        "''https://v/1?alt=media''"] f
    by (simp add: envFetchFail_def envDown_def truthy_def numeral_eq_Suc)
  from 1 2 3 4 5 6 7 show ?thesis by blast
qed

text \<open>The video path can succeed: two answers 404, then the download.\<close>

lemma video_success_example:
  "generateSlideVideo envVideoOk 0 ''p'' = Some (Returned (Some ''blob:1''))"
  by (simp add: envVideoOk_def envFetchFail_def envDown_def generateSlideVideo_def
      videoBody_def getAiClient_def fetchAttempt_def numeral_3_eq_3)

section \<open>Properties of the media workflow\<close>

lemma callChain_raises:
  "callChain env fuel slide ty = Some (Raised e)
     \<longleftrightarrow> \<not> truthy (apiKey env) \<and> e = MissingApiKey"
  by (cases ty)
    (simp_all add: callChain_def Let_def generateSlideImage_raises generateSlideVideo_raises)

lemma find_sid_in_set:
  "find (\<lambda>x. sid x = slideId) xs = Some slide \<Longrightarrow> slideId \<in> set (map sid xs)"
  by (auto simp: find_Some_iff image_iff)

lemma map_sid_update:
  "(\<And>x. sid (f x) = sid x)
   \<Longrightarrow> map sid (map (\<lambda>x. if sid x = i then f x else x) xs) = map sid xs"
  by (induction xs) simp_all

lemma ball_update:
  assumes "\<And>x. sid (f x) = sid x" and "\<And>x. P (f x)"
  shows "\<forall>x \<in> set (map (\<lambda>x. if sid x = i then f x else x) xs). sid x = i \<longrightarrow> P x"
  using assms by (induction xs) simp_all

lemma slides_settle_raised:
  "slides (settle c slideId ty (Raised e) s) =
     map (\<lambda>x. if sid x = slideId
               then x\<lparr>isLoadingMedia := Some False, mediaType := None_m\<rparr> else x) (slides s)"
  by (simp add: settle_def)

lemma slides_settle_null:
  "slides (settle c slideId ty (Returned None) s) =
     map (\<lambda>x. if sid x = slideId
               then x\<lparr>isLoadingMedia := Some False, mediaUrl := None, mediaType := None_m\<rparr>
               else x) (slides c)"
  by (simp add: settle_def Let_def truthy_def slides_pushToHistory)

lemma settle_raised:
  "alerts (settle c slideId ty (Raised e) s)
     = alerts s @ [''Media generation failed. Please try again.'']"
  "history (settle c slideId ty (Raised e) s) = history s"
  "historyIndex (settle c slideId ty (Raised e) s) = historyIndex s"
  by (simp_all add: settle_def)

lemma settle_raised_slide:
  "\<forall>x \<in> set (slides (settle c slideId ty (Raised e) s)).
      sid x = slideId \<longrightarrow> isLoadingMedia x = Some False \<and> mediaType x = None_m"
  unfolding slides_settle_raised by (rule ball_update) simp_all

lemma settle_null_alerts: "alerts (settle c slideId ty (Returned None) s) = alerts s"
  by (simp add: settle_def Let_def truthy_def alerts_pushToHistory)

text \<open>The path of a null result leaves no locator on the slide.\<close>

lemma settle_null_slide:
  "\<forall>x \<in> set (slides (settle c slideId ty (Returned None) s)).
      sid x = slideId \<longrightarrow>
      isLoadingMedia x = Some False \<and> mediaType x = None_m \<and> mediaUrl x = None"
  unfolding slides_settle_null by (rule ball_update) simp_all

lemma map_sid_settle_raised:
  "map sid (slides (settle c slideId ty (Raised e) s)) = map sid (slides s)"
  unfolding slides_settle_raised by (rule map_sid_update) simp

lemma map_sid_settle_null:
  "map sid (slides (settle c slideId ty (Returned None) s)) = map sid (slides c)"
  unfolding slides_settle_null by (rule map_sid_update) simp

lemma markLoading_simps:
  "alerts (markLoading slideId ty s) = alerts s"
  "history (markLoading slideId ty s) = history s"
  "historyIndex (markLoading slideId ty s) = historyIndex s"
  "map sid (slides (markLoading slideId ty s)) = map sid (slides s)"
  by (simp_all add: markLoading_def map_sid_update)

text \<open>
  Claim C4, as amended: for a slide of the deck, the call chain raises exactly when no
  API key is configured; when it raises, the run ends with the loading flag of the
  slide cleared, its media kind none, the failure notice shown, and the history as the
  pre-job push left it (no post-job push). A null result resets the slide to no media
  and shows no notice; and a failure of the image or video request itself is caught
  inside the generation client and arrives as such a null result, without notice.
\<close>

theorem generateMedia_raise_or_null:
  assumes "find (\<lambda>x. sid x = slideId) (slides s) = Some slide"
  shows "(callChain env fuel slide ty = Some (Raised e)
            \<longleftrightarrow> \<not> truthy (apiKey env) \<and> e = MissingApiKey)
       \<and> (callChain env fuel slide ty = Some (Raised e) \<longrightarrow>
            (\<exists>r. generateMediaForSlide env fuel slideId ty s = Some r
               \<and> slideId \<in> set (map sid (slides r))
               \<and> (\<forall>x \<in> set (slides r). sid x = slideId \<longrightarrow>
                     isLoadingMedia x = Some False \<and> mediaType x = None_m)
               \<and> alerts r = alerts s @ [''Media generation failed. Please try again.'']
               \<and> history r = history (push (slides s) (presentationTitle s) s)
               \<and> historyIndex r = historyIndex (push (slides s) (presentationTitle s) s)))
       \<and> (callChain env fuel slide ty = Some (Returned None) \<longrightarrow>
            (\<exists>r. generateMediaForSlide env fuel slideId ty s = Some r
               \<and> slideId \<in> set (map sid (slides r))
               \<and> (\<forall>x \<in> set (slides r). sid x = slideId \<longrightarrow>
                     isLoadingMedia x = Some False \<and> mediaType x = None_m
                     \<and> mediaUrl x = None)
               \<and> alerts r = alerts s))
       \<and> (truthy (apiKey env) \<and> (\<forall>p. \<exists>e'. generateImages env p = Raised e')
            \<longrightarrow> callChain env fuel slide ImageJob = Some (Returned None))
       \<and> (truthy (apiKey env) \<and> (\<forall>p. \<exists>e'. generateVideos env p = Raised e')
            \<longrightarrow> callChain env fuel slide VideoJob = Some (Returned None))"
proof (intro conjI impI)
  show "callChain env fuel slide ty = Some (Raised e)
          \<longleftrightarrow> \<not> truthy (apiKey env) \<and> e = MissingApiKey"
    by (rule callChain_raises)
next
  assume c: "callChain env fuel slide ty = Some (Raised e)"
  let ?s1 = "pushToHistory s (slides s) (presentationTitle s) s"
  let ?r = "settle s slideId ty (Raised e) (markLoading slideId ty ?s1)"
  have "generateMediaForSlide env fuel slideId ty s = Some ?r"
    using assms c by (simp add: generateMediaForSlide_def Let_def)
  moreover have "slideId \<in> set (map sid (slides ?r))"
    using find_sid_in_set [OF assms]
    by (simp only: map_sid_settle_raised markLoading_simps(4) slides_pushToHistory)
  moreover have "\<forall>x \<in> set (slides ?r). sid x = slideId \<longrightarrow>
                     isLoadingMedia x = Some False \<and> mediaType x = None_m"
    by (rule settle_raised_slide)
  moreover have "alerts ?r = alerts s @ [''Media generation failed. Please try again.'']"
    by (simp add: settle_raised(1) markLoading_simps alerts_pushToHistory)
  moreover have "history ?r = history (push (slides s) (presentationTitle s) s)"
    "historyIndex ?r = historyIndex (push (slides s) (presentationTitle s) s)"
    by (simp_all add: settle_raised(2,3) markLoading_simps push_def)
  ultimately show "\<exists>r. generateMediaForSlide env fuel slideId ty s = Some r
               \<and> slideId \<in> set (map sid (slides r))
               \<and> (\<forall>x \<in> set (slides r). sid x = slideId \<longrightarrow>
                     isLoadingMedia x = Some False \<and> mediaType x = None_m)
               \<and> alerts r = alerts s @ [''Media generation failed. Please try again.'']
               \<and> history r = history (push (slides s) (presentationTitle s) s)
               \<and> historyIndex r = historyIndex (push (slides s) (presentationTitle s) s)"
    by blast
next
  assume c: "callChain env fuel slide ty = Some (Returned None)"
  let ?s1 = "pushToHistory s (slides s) (presentationTitle s) s"
  let ?r = "settle s slideId ty (Returned None) (markLoading slideId ty ?s1)"
  have "generateMediaForSlide env fuel slideId ty s = Some ?r"
    using assms c by (simp add: generateMediaForSlide_def Let_def)
  moreover have "slideId \<in> set (map sid (slides ?r))"
    using find_sid_in_set [OF assms] by (simp only: map_sid_settle_null)
  moreover have "\<forall>x \<in> set (slides ?r). sid x = slideId \<longrightarrow>
                     isLoadingMedia x = Some False \<and> mediaType x = None_m \<and> mediaUrl x = None"
    by (rule settle_null_slide)
  moreover have "alerts ?r = alerts s"
    by (simp add: settle_null_alerts markLoading_simps alerts_pushToHistory)
  ultimately show "\<exists>r. generateMediaForSlide env fuel slideId ty s = Some r
               \<and> slideId \<in> set (map sid (slides r))
               \<and> (\<forall>x \<in> set (slides r). sid x = slideId \<longrightarrow>
                     isLoadingMedia x = Some False \<and> mediaType x = None_m
                     \<and> mediaUrl x = None)
               \<and> alerts r = alerts s"
    by blast
next
  assume a: "truthy (apiKey env) \<and> (\<forall>p. \<exists>e'. generateImages env p = Raised e')"
  have "generateSlideImage env q = Returned None" for q
  proof -
    from a obtain e' where "generateImages env (q @ imageStyle) = Raised e'" by blast
    with a show ?thesis by (simp add: generateSlideImage_def getAiClient_cases)
  qed
  then show "callChain env fuel slide ImageJob = Some (Returned None)"
    by (simp add: callChain_def Let_def)
next
  assume a: "truthy (apiKey env) \<and> (\<forall>p. \<exists>e'. generateVideos env p = Raised e')"
  have "generateSlideVideo env fuel q = Some (Returned None)" for q
  proof -
    from a obtain e' where "generateVideos env (q @ videoStyle) = Raised e'" by blast
    with a show ?thesis by (simp add: generateSlideVideo_def videoBody_def getAiClient_cases)
  qed
  then show "callChain env fuel slide VideoJob = Some (Returned None)"
    by (simp add: callChain_def Let_def)
qed

text \<open>Claim C4, as amended, on the deck of one slide: without a key the chain raises
  and the notice is shown; with a key and a failing service the result is null and
  no notice is shown.\<close>

theorem generateMedia_raise_or_null_witness:
  "find (\<lambda>x. sid x = ''A'') (slides deckA) = Some slideA
   \<and> callChain envNoKey 0 slideA VideoJob = Some (Raised MissingApiKey)
   \<and> map_option alerts (generateMediaForSlide envNoKey 0 ''A'' VideoJob deckA)
       = Some [''Media generation failed. Please try again.'']
   \<and> map_option history (generateMediaForSlide envNoKey 0 ''A'' VideoJob deckA)
       = Some (history (push (slides deckA) (presentationTitle deckA) deckA))
   \<and> callChain envDown 0 slideA ImageJob = Some (Returned None)
   \<and> map_option alerts (generateMediaForSlide envDown 0 ''A'' ImageJob deckA) = Some []"
proof -
  have f: "find (\<lambda>x. sid x = ''A'') (slides deckA) = Some slideA"
    by (simp add: deckA_def slideA_def)
  note t = generateMedia_raise_or_null [OF f]
  have k1: "\<not> truthy (apiKey envNoKey)"
    by (simp add: envNoKey_def envDown_def truthy_def)
  have c1: "callChain envNoKey 0 slideA VideoJob = Some (Raised MissingApiKey)"
    using t [where env = envNoKey and fuel = 0 and ty = VideoJob and e = MissingApiKey] k1
    by blast
  obtain r where r: "generateMediaForSlide envNoKey 0 ''A'' VideoJob deckA = Some r"
    "alerts r = alerts deckA @ [''Media generation failed. Please try again.'']"
    "history r = history (push (slides deckA) (presentationTitle deckA) deckA)"
    using t [where env = envNoKey and fuel = 0 and ty = VideoJob and e = MissingApiKey] c1
    by blast
  have k2: "truthy (apiKey envDown) \<and> (\<forall>p. \<exists>e'. generateImages envDown p = Raised e')"
    by (simp add: envDown_def truthy_def)
  have c2: "callChain envDown 0 slideA ImageJob = Some (Returned None)"
    using t [where env = envDown and fuel = 0 and ty = ImageJob] k2 by blast
  obtain r' where r': "generateMediaForSlide envDown 0 ''A'' ImageJob deckA = Some r'"
    "alerts r' = alerts deckA"
    using t [where env = envDown and fuel = 0 and ty = ImageJob] c2 by blast
  have e: "alerts deckA = []" by (simp add: deckA_def)
  have a1: "map_option alerts (generateMediaForSlide envNoKey 0 ''A'' VideoJob deckA)
              = Some [''Media generation failed. Please try again.'']"
    unfolding r(1) using r(2) e by simp
  have a2: "map_option history (generateMediaForSlide envNoKey 0 ''A'' VideoJob deckA)
              = Some (history (push (slides deckA) (presentationTitle deckA) deckA))"
    unfolding r(1) using r(3) by simp
  have a3: "map_option alerts (generateMediaForSlide envDown 0 ''A'' ImageJob deckA) = Some []"
    unfolding r'(1) using r'(2) e by simp
  from f c1 a1 a2 c2 a3 show ?thesis by blast
qed

lemmas media_defs = generateMediaForSlide_def callChain_def settle_def markLoading_def
  pushToHistory_def slice0_def refineImagePrompt_def generateSlideImage_def getAiClient_def
  mediaOf_def Let_def truthy_def

text \<open>Claim C4 as stated fails: the image request fails (the service answers with an
  error), and the run ends with no media on the slide and no notice shown.\<close>

theorem generation_failure_without_notice_counterexample:
  "map_option (\<lambda>r. (alerts r, map mediaType (slides r)))
     (generateMediaForSlide envDown 0 ''A'' ImageJob deckA) = Some ([], [None_m])"
  by (simp add: media_defs deckA_def slideA_def envDown_def)

text \<open>
  Claim C3: after every operation, a slide that has a media locator has a media kind
  other than none; in particular the failure path of media generation leaves no stale
  locator.

  The failure path resets the kind and keeps the locator. The slide of a restored
  deck carries an image; its regeneration raises (no API key is configured): the slide
  ends with the locator of the old image and the kind none. The path of a null result clears the locator
  (\<open>settle_null_slide\<close>), as does the button that removes the media.
\<close>

theorem failure_path_keeps_stale_locator:
  "map (\<lambda>x. (mediaUrl x, mediaType x)) (slides deckRestored)
     = [(Some ''data:image/jpeg;base64,AAAA'', Image)]
   \<and> map_option (\<lambda>r. map (\<lambda>x. (mediaUrl x, mediaType x, isLoadingMedia x)) (slides r))
        (generateMediaForSlide envNoKey 0 ''A'' ImageJob deckRestored)
       = Some [(Some ''data:image/jpeg;base64,AAAA'', None_m, Some False)]
   \<and> map_option alerts (generateMediaForSlide envNoKey 0 ''A'' ImageJob deckRestored)
       = Some [''Media generation failed. Please try again.'']"
  by (simp add: media_defs deckRestored_def deckA_def slideA_def slideWithImage_def
      envNoKey_def envDown_def)

text \<open>
  Claim C8: when the generation client returns null for a slide of the deck, the slide
  ends with media kind none, no locator and the loading flag false, and two history
  checkpoints, the pre-job and the post-job one, were pushed.

  The slide ends as claimed, but the log gains one entry, not two. The second
  \<^verbatim>\<open>pushToHistory\<close> runs after the \<^verbatim>\<open>await\<close> with the index of the render in which the
  job was started: its \<^verbatim>\<open>prev.slice(0, historyIndex + 1)\<close> cuts off the pre-job entry
  that the first call appended. Here the log held one entry and the deck carried an
  image that no entry records; afterwards the log holds two entries, neither with the
  image, and the index is 2, past the end of the log.
\<close>

theorem null_result_loses_pre_job_checkpoint:
  "map_option (\<lambda>r. (map (\<lambda>x. (mediaType x, mediaUrl x, isLoadingMedia x)) (slides r),
                    history r, historyIndex r))
     (generateMediaForSlide envEmpty 0 ''A'' ImageJob deckAuto)
   = Some ([(None_m, None, Some False)],
           [\<lparr>e_slides = [slideA], e_title = ''Talk''\<rparr>,
            \<lparr>e_slides = [slideA], e_title = ''Talk''\<rparr>],
           2)"
  by (simp add: media_defs deckAuto_def deckA_def slideA_def slideWithImage_def
      envEmpty_def envDown_def)

end
